theory Spec2Isabelle
  imports Complex_Main
begin

section \<open>JavaScript values read by the time logic\<close>

text \<open>
  The module \<^verbatim>\<open>timeLogic.ts\<close> exports \<^verbatim>\<open>getShiftTimeRange\<close> and
  \<^verbatim>\<open>isShiftActive\<close>. Both work on JavaScript strings and numbers and on objects of
  the date library dayjs. This section models the JavaScript side: numbers, the
  conversion \<^verbatim>\<open>Number(string)\<close>, truthiness and \<^verbatim>\<open>String.prototype.split\<close>.
\<close>

text \<open>
  A JavaScript number: NaN, the two infinities, or a finite double, held as the rational
  it is. Negative zero is \<open>Fin 0\<close>: the source compares numbers and passes them to date
  setters, which do not tell the two zeros apart.
\<close>

datatype jsnum = NaN | NegInf | Fin rat | PosInf

text \<open>The relational operators \<^verbatim>\<open><\<close>, \<^verbatim>\<open>>\<close>, \<^verbatim>\<open><=\<close>, \<^verbatim>\<open>>=\<close>: false as soon as one side is NaN.\<close>

fun js_lt :: "jsnum \<Rightarrow> jsnum \<Rightarrow> bool" where
  "js_lt NaN _ = False"
| "js_lt _ NaN = False"
| "js_lt (Fin a) (Fin b) = (a < b)"
| "js_lt _ NegInf = False"
| "js_lt NegInf _ = True"
| "js_lt PosInf _ = False"
| "js_lt _ PosInf = True"

definition js_gt :: "jsnum \<Rightarrow> jsnum \<Rightarrow> bool" where
  "js_gt a b = js_lt b a"

definition js_le :: "jsnum \<Rightarrow> jsnum \<Rightarrow> bool" where
  "js_le a b = (a \<noteq> NaN \<and> b \<noteq> NaN \<and> \<not> js_lt b a)"

definition js_ge :: "jsnum \<Rightarrow> jsnum \<Rightarrow> bool" where
  "js_ge a b = js_le b a"

definition isNaN :: "jsnum \<Rightarrow> bool" where
  "isNaN x = (x = NaN)"

text \<open>
  The values an argument typed \<^verbatim>\<open>string\<close> can hold at run time (the tests pass
  \<^verbatim>\<open>null as any\<close> for the timezone). \<open>JObject\<close> stands for any object.
\<close>

datatype jsval = JUndefined | JNull | JBoolean bool | JNumber jsnum | JString string | JObject

fun truthy :: "jsval \<Rightarrow> bool" where
  "truthy JUndefined = False"
| "truthy JNull = False"
| "truthy (JBoolean b) = b"
| "truthy (JNumber n) = (n \<noteq> NaN \<and> n \<noteq> Fin 0)"
| "truthy (JString s) = (s \<noteq> [])"
| "truthy JObject = True"

fun is_string :: "jsval \<Rightarrow> bool" where
  "is_string (JString s) = True"
| "is_string _ = False"

text \<open>The string held by a value; only read after \<open>is_string\<close> has been checked.\<close>

fun string_of :: "jsval \<Rightarrow> string" where
  "string_of (JString s) = s"
| "string_of _ = []"

text \<open>
  An optional string (\<^verbatim>\<open>selectedDate?: string\<close>, a field that may be missing):
  \<open>None\<close> is \<^verbatim>\<open>undefined\<close>. The empty string is falsy as well.
\<close>

fun truthy_str :: "string option \<Rightarrow> bool" where
  "truthy_str None = False"
| "truthy_str (Some s) = (s \<noteq> [])"

fun str_val :: "string option \<Rightarrow> string" where
  "str_val None = []"
| "str_val (Some s) = s"

text \<open>An optional number (\<^verbatim>\<open>dateOffset?: number\<close>): 0 and NaN are falsy.\<close>

fun truthy_num :: "jsnum option \<Rightarrow> bool" where
  "truthy_num None = False"
| "truthy_num (Some n) = (n \<noteq> NaN \<and> n \<noteq> Fin 0)"

fun num_val :: "jsnum option \<Rightarrow> jsnum" where
  "num_val None = NaN"
| "num_val (Some n) = n"

subsection \<open>\<^verbatim>\<open>split(':')\<close>\<close>

text \<open>Splitting at every colon; the empty string gives one empty part.\<close>

fun split_colon :: "string \<Rightarrow> string list" where
  "split_colon [] = [[]]"
| "split_colon (c # cs) =
     (if c = CHR '':'' then [] # split_colon cs
      else (case split_colon cs of
              [] \<Rightarrow> [[c]]
            | p # ps \<Rightarrow> (c # p) # ps))"

subsection \<open>\<^verbatim>\<open>Number(string)\<close>\<close>

text \<open>
  The conversion StringToNumber of ECMAScript on strings of 8-bit code units: white
  space is trimmed, the empty string is 0, then a signed decimal literal (with
  \<^verbatim>\<open>Infinity\<close>, a fraction and an exponent) or an unsigned hexadecimal, octal or binary
  integer literal; anything else is NaN. The value of a literal is rounded to a double.
\<close>

definition isStrWhiteSpaceChar :: "char \<Rightarrow> bool" where
  "isStrWhiteSpaceChar c =
     (c \<in> set [CHR 0x09, CHR 0x0A, CHR 0x0B, CHR 0x0C, CHR 0x0D, CHR 0x20, CHR 0xA0])"

definition trim :: "string \<Rightarrow> string" where
  "trim s = rev (dropWhile isStrWhiteSpaceChar (rev (dropWhile isStrWhiteSpaceChar s)))"

definition digitValue :: "char \<Rightarrow> nat option" where
  "digitValue c =
     map_of (zip ''0123456789abcdef'' [0..<16] @ zip ''ABCDEF'' [10..<16]) c"

definition isDecimalDigit :: "char \<Rightarrow> bool" where
  "isDecimalDigit c = (c \<in> set ''0123456789'')"

text \<open>The value of a run of digits in a radix, \<open>None\<close> when a character is no digit of it.\<close>

fun digitsValue :: "nat \<Rightarrow> int \<Rightarrow> string \<Rightarrow> int option" where
  "digitsValue r acc [] = Some acc"
| "digitsValue r acc (c # cs) =
     (case digitValue c of
        None \<Rightarrow> None
      | Some v \<Rightarrow> if v < r then digitsValue r (acc * int r + int v) cs else None)"

text \<open>
  The Number value for a mathematical value \<open>q\<close> that is not negative: the nearest
  double, ties to the even significand. A double of exponent \<open>e\<close> is a significand of
  at most 53 bits times \<open>2 ^ (e - 52)\<close>; the exponent is that of \<open>q\<close> and at least
  \<open>-1022\<close>. A value that rounds to \<open>2 ^ 1024\<close> or more is infinite: its exponent is
  above 1023, or is 1023 with a significand that rounds up to \<open>2 ^ 53\<close>.
\<close>

definition pow2 :: "int \<Rightarrow> rat" where
  "pow2 k = (if 0 \<le> k then 2 ^ nat k else 1 / 2 ^ nat (- k))"

function bit_length :: "int \<Rightarrow> nat" where
  "bit_length n = (if n \<le> 0 then 0 else Suc (bit_length (n div 2)))"
  by pat_completeness auto
termination
  by (relation "measure nat") auto

definition floor_log2 :: "rat \<Rightarrow> int" where
  "floor_log2 q =
     (let k = (if 1 \<le> q then int (bit_length \<lfloor>q\<rfloor>) - 1
               else - int (bit_length \<lfloor>1 / q\<rfloor>))
      in if pow2 (k + 1) \<le> q then k + 1 else k)"

definition round_half_even :: "rat \<Rightarrow> int" where
  "round_half_even x =
     (let f = \<lfloor>x\<rfloor>; r = x - of_int f
      in if r < 1 / 2 then f else if 1 / 2 < r then f + 1 else if even f then f else f + 1)"

definition significand :: "rat \<Rightarrow> int \<Rightarrow> int" where
  "significand q e = round_half_even (q / pow2 (e - 52))"

definition RoundMVResult :: "rat \<Rightarrow> jsnum" where
  "RoundMVResult q =
     (if q = 0 then Fin 0
      else if 1023 < floor_log2 q then PosInf
      else if floor_log2 q = 1023 \<and> significand q 1023 = 2 ^ 53 then PosInf
      else Fin (of_int (significand q (max (floor_log2 q) (- 1022)))
                * pow2 (max (floor_log2 q) (- 1022) - 52)))"

definition NonDecimalIntegerLiteral :: "nat \<Rightarrow> string \<Rightarrow> jsnum" where
  "NonDecimalIntegerLiteral r ds =
     (if ds = [] then NaN
      else (case digitsValue r 0 ds of None \<Rightarrow> NaN | Some v \<Rightarrow> RoundMVResult (of_int v)))"

text \<open>The exponent part: absent (0), or \<^verbatim>\<open>e\<close>/\<^verbatim>\<open>E\<close>, an optional sign and at least one digit.\<close>

definition ExponentPart :: "string \<Rightarrow> int option" where
  "ExponentPart s =
     (case s of
        [] \<Rightarrow> Some 0
      | c # r \<Rightarrow>
          if c = CHR ''e'' \<or> c = CHR ''E'' then
            (case r of
               [] \<Rightarrow> None
             | d # ds \<Rightarrow>
                 if d = CHR ''+'' then
                   (if ds = [] then None else digitsValue 10 0 ds)
                 else if d = CHR ''-'' then
                   (if ds = [] then None
                    else map_option uminus (digitsValue 10 0 ds))
                 else digitsValue 10 0 r)
          else None)"

definition scale10 :: "rat \<Rightarrow> int \<Rightarrow> rat" where
  "scale10 q e = (if 0 \<le> e then q * 10 ^ nat e else q / 10 ^ nat (- e))"

definition StrUnsignedDecimalLiteral :: "string \<Rightarrow> jsnum" where
  "StrUnsignedDecimalLiteral s =
     (if s = ''Infinity'' then PosInf
      else
        let ip = takeWhile isDecimalDigit s;
            r1 = dropWhile isDecimalDigit s;
            dot = (r1 \<noteq> [] \<and> hd r1 = CHR ''.'');
            fp = (if dot then takeWhile isDecimalDigit (tl r1) else []);
            r2 = (if dot then dropWhile isDecimalDigit (tl r1) else r1)
        in if ip = [] \<and> fp = [] then NaN
           else (case (digitsValue 10 0 (ip @ fp), ExponentPart r2) of
                   (Some v, Some e) \<Rightarrow> RoundMVResult (scale10 (of_int v) (e - int (length fp)))
                 | _ \<Rightarrow> NaN))"

fun js_negate :: "jsnum \<Rightarrow> jsnum" where
  "js_negate NaN = NaN"
| "js_negate NegInf = PosInf"
| "js_negate (Fin q) = Fin (- q)"
| "js_negate PosInf = NegInf"

definition Number :: "string \<Rightarrow> jsnum" where
  "Number str =
     (let s = trim str in
      if s = [] then Fin 0
      else if take 2 s = ''0x'' \<or> take 2 s = ''0X'' then NonDecimalIntegerLiteral 16 (drop 2 s)
      else if take 2 s = ''0o'' \<or> take 2 s = ''0O'' then NonDecimalIntegerLiteral 8 (drop 2 s)
      else if take 2 s = ''0b'' \<or> take 2 s = ''0B'' then NonDecimalIntegerLiteral 2 (drop 2 s)
      else if hd s = CHR ''+'' then StrUnsignedDecimalLiteral (tl s)
      else if hd s = CHR ''-'' then js_negate (StrUnsignedDecimalLiteral (tl s))
      else StrUnsignedDecimalLiteral s)"

section \<open>The shift and the date library\<close>

text \<open>
  The interface \<^verbatim>\<open>Shift\<close> of \<^verbatim>\<open>types.ts\<close>. The fields are \<^verbatim>\<open>name\<close>, \<^verbatim>\<open>start\<close>,
  \<^verbatim>\<open>end\<close> and \<^verbatim>\<open>dateOffset\<close>; a missing \<^verbatim>\<open>start\<close> or \<^verbatim>\<open>end\<close> (the tests pass
  \<^verbatim>\<open>{} as Shift\<close>) is \<open>None\<close>.
\<close>

record shift =
  shift_name :: string
  shift_start :: "string option"
  shift_end :: "string option"
  shift_dateOffset :: "jsnum option"

text \<open>
  The six \<^verbatim>\<open>throw new Error(...)\<close> of \<^verbatim>\<open>getShiftTimeRange\<close>, in the order of the
  source. The specification names them InvalidShiftError, InvalidTimezoneError (both
  \<open>InvalidTimezone\<close>, thrown for an empty or non-string timezone, and
  \<open>InvalidTimezoneOrDate\<close>, thrown when the anchor is not valid), InvalidTimeFormatError,
  InvalidTimeValueError, InvalidHourError and InvalidMinuteError.
\<close>

datatype error =
    InvalidShiftConfiguration
  | InvalidTimezone
  | InvalidTimezoneOrDate
  | InvalidTimeFormat
  | InvalidTimeValues
  | InvalidHourValues
  | InvalidMinuteValues

text \<open>
  dayjs and its plugins \<^verbatim>\<open>utc\<close> and \<^verbatim>\<open>timezone\<close> are a dependency of the repository
  and not part of its source. The operations the module calls are taken as a parameter:
  a record of functions over the library's date objects \<open>'d\<close>. The clock
  (\<^verbatim>\<open>dayjs()\<close>, \<^verbatim>\<open>Date.now()\<close>) is the argument \<open>now\<close>, in epoch milliseconds, read
  as one instant for the whole synchronous call.
\<close>

record 'd dayjs_api =
  tz_parse :: "string \<Rightarrow> string \<Rightarrow> 'd"
  tz_instant :: "int \<Rightarrow> string \<Rightarrow> 'd"
  isValid :: "'d \<Rightarrow> bool"
  add_day :: "'d \<Rightarrow> jsnum \<Rightarrow> 'd"
  set_hour :: "'d \<Rightarrow> jsnum \<Rightarrow> 'd"
  set_minute :: "'d \<Rightarrow> jsnum \<Rightarrow> 'd"
  set_second :: "'d \<Rightarrow> jsnum \<Rightarrow> 'd"
  set_millisecond :: "'d \<Rightarrow> jsnum \<Rightarrow> 'd"
  isAfter :: "'d \<Rightarrow> 'd \<Rightarrow> bool"
  isSame_day :: "'d \<Rightarrow> 'd \<Rightarrow> bool"
  utc :: "'d \<Rightarrow> 'd"
  valueOf :: "'d \<Rightarrow> jsnum"

text \<open>
  \<open>tz_parse L selectedDate tz\<close> is \<^verbatim>\<open>dayjs.tz(selectedDate, tz)\<close>,
  \<open>tz_instant L now tz\<close> is \<^verbatim>\<open>dayjs.tz(dayjs(), tz)\<close>, \<open>add_day L d n\<close> is
  \<^verbatim>\<open>d.add(n, 'day')\<close>, \<open>set_hour L d n\<close> is \<^verbatim>\<open>d.hour(n)\<close> (and so on for minute,
  second and millisecond), \<open>isSame_day L a b\<close> is \<^verbatim>\<open>a.isSame(b, 'day')\<close>.
\<close>

section \<open>The time logic\<close>

definition getShiftTimeRange ::
  "'d dayjs_api \<Rightarrow> int \<Rightarrow> shift option \<Rightarrow> jsval \<Rightarrow> string option \<Rightarrow> error + (jsnum \<times> jsnum)"
where
  "getShiftTimeRange L now shift tz selectedDate =
     (case shift of
        None \<Rightarrow> Inl InvalidShiftConfiguration
      | Some s \<Rightarrow>
          if \<not> truthy_str (shift_start s) \<or> \<not> truthy_str (shift_end s)
          then Inl InvalidShiftConfiguration
          else if \<not> truthy tz \<or> \<not> is_string tz then Inl InvalidTimezone
          else
            let baseDate0 =
                  (if truthy_str selectedDate
                   then tz_parse L (str_val selectedDate) (string_of tz)
                   else tz_instant L now (string_of tz))
            in if \<not> isValid L baseDate0 then Inl InvalidTimezoneOrDate
               else
                 let baseDate =
                       (if truthy_num (shift_dateOffset s)
                        then add_day L baseDate0 (num_val (shift_dateOffset s))
                        else baseDate0);
                     startParts = split_colon (str_val (shift_start s));
                     endParts = split_colon (str_val (shift_end s))
                 in if length startParts \<noteq> 2 \<or> length endParts \<noteq> 2
                    then Inl InvalidTimeFormat
                    else
                      let startHour = Number (startParts ! 0);
                          startMin = Number (startParts ! 1);
                          endHour = Number (endParts ! 0);
                          endMin = Number (endParts ! 1)
                      in if isNaN startHour \<or> isNaN startMin \<or> isNaN endHour \<or> isNaN endMin
                         then Inl InvalidTimeValues
                         else if js_lt startHour (Fin 0) \<or> js_gt startHour (Fin 23)
                                 \<or> js_lt endHour (Fin 0) \<or> js_gt endHour (Fin 23)
                         then Inl InvalidHourValues
                         else if js_lt startMin (Fin 0) \<or> js_gt startMin (Fin 59)
                                 \<or> js_lt endMin (Fin 0) \<or> js_gt endMin (Fin 59)
                         then Inl InvalidMinuteValues
                         else
                           let from = set_millisecond L (set_second L
                                        (set_minute L (set_hour L baseDate startHour) startMin)
                                        (Fin 0)) (Fin 0);
                               to0 = set_millisecond L (set_second L
                                        (set_minute L (set_hour L baseDate endHour) endMin)
                                        (Fin 0)) (Fin 0);
                               to = (if isAfter L from to0 then add_day L to0 (Fin 1) else to0)
                           in Inr (valueOf L (utc L from), valueOf L (utc L to)))"

definition isShiftActive ::
  "'d dayjs_api \<Rightarrow> int \<Rightarrow> shift option \<Rightarrow> jsval \<Rightarrow> string option \<Rightarrow> error + bool"
where
  "isShiftActive L now shift tz selectedDate =
     (case getShiftTimeRange L now shift tz selectedDate of
        Inl e \<Rightarrow> Inl e
      | Inr (from, to) \<Rightarrow>
          if truthy_str selectedDate then
            (let selected = tz_parse L (str_val selectedDate) (string_of tz);
                 today = tz_instant L now (string_of tz)
             in if isSame_day L selected today
                then Inr (js_ge (Fin (of_int now)) from \<and> js_le (Fin (of_int now)) to)
                else Inr False)
          else Inr (js_ge (Fin (of_int now)) from \<and> js_le (Fin (of_int now)) to))"

section \<open>The civil-time facility\<close>

text \<open>
  Modelled from the spec: the civil-time and timezone conversion facility (dayjs with
  its plugins and the timezone database of the environment), which is a dependency and
  not part of the sources of the repository. The specification asks for wall-clock
  times that are read in an explicit timezone, for day arithmetic on the civil date
  (not a fixed number of hours), for seconds and milliseconds set to zero, and for an
  anchor that is invalid when timezone and date do not give a calendar date. The
  definitions of this section follow these words; the theorems on the interval are
  stated over any timezone table.
\<close>

text \<open>
  Modelled from the spec: a zone of the timezone database, which the module takes from
  its environment. A zone is the UTC offset in minutes before its first transition, and
  its transitions in ascending order, each an instant (epoch milliseconds) with the
  offset in force from that instant on.
\<close>

record tzinfo =
  base_offset :: int
  transitions :: "(int \<times> int) list"

fun offset_walk :: "int \<Rightarrow> (int \<times> int) list \<Rightarrow> int \<Rightarrow> int" where
  "offset_walk cur [] t = cur"
| "offset_walk cur ((since, off) # rest) t =
     (if since \<le> t then offset_walk off rest t else cur)"

definition offset_at :: "tzinfo \<Rightarrow> int \<Rightarrow> int" where
  "offset_at z t = offset_walk (base_offset z) (transitions z) t"

definition offsets :: "tzinfo \<Rightarrow> int list" where
  "offsets z = base_offset z # map snd (transitions z)"

text \<open>
  Wall-clock time is counted in milliseconds since 1970-01-01 00:00 on the clock of the
  zone. \<open>to_local\<close> reads an instant on that clock.
\<close>

definition to_local :: "tzinfo \<Rightarrow> int \<Rightarrow> int" where
  "to_local z t = t + offset_at z t * 60000"

text \<open>
  Modelled from the spec: the instant of a wall-clock time read in a zone. It is taken
  under the first offset of the zone under which the time exists. A time that a
  transition skips exists under none (the specification does not say what it stands
  for); it is read with the base offset.
\<close>

definition resolve :: "tzinfo \<Rightarrow> int \<Rightarrow> int" where
  "resolve z w =
     (case find (\<lambda>off. offset_at z (w - off * 60000) = off) (offsets z) of
        Some off \<Rightarrow> w - off * 60000
      | None \<Rightarrow> w - base_offset z * 60000)"

text \<open>The day number (days since 1970-01-01) of a date of the proleptic Gregorian calendar.\<close>

definition days_from_civil :: "int \<Rightarrow> int \<Rightarrow> int \<Rightarrow> int" where
  "days_from_civil y m d =
     (let y' = (if m \<le> 2 then y - 1 else y);
          era = y' div 400;
          yoe = y' - era * 400;
          doy = (153 * (if 2 < m then m - 3 else m + 9) + 2) div 5 + d - 1;
          doe = yoe * 365 + yoe div 4 - yoe div 100 + doy
      in era * 146097 + doe - 719468)"

definition is_leap :: "int \<Rightarrow> bool" where
  "is_leap y = (y mod 4 = 0 \<and> (y mod 100 \<noteq> 0 \<or> y mod 400 = 0))"

definition days_in_month :: "int \<Rightarrow> int \<Rightarrow> int" where
  "days_in_month y m =
     (if m = 2 then (if is_leap y then 29 else 28)
      else if m = 4 \<or> m = 6 \<or> m = 9 \<or> m = 11 then 30 else 31)"

text \<open>
  Modelled from the spec: the selected date, a string \<^verbatim>\<open>YYYY-MM-DD\<close>. A string of
  another form, or one that names no day of the calendar, gives no date.
\<close>

definition parse_date :: "string \<Rightarrow> (int \<times> int \<times> int) option" where
  "parse_date s =
     (if length s = 10 \<and> s ! 4 = CHR ''-'' \<and> s ! 7 = CHR ''-'' then
        (case (digitsValue 10 0 (take 4 s), digitsValue 10 0 (take 2 (drop 5 s)),
               digitsValue 10 0 (drop 8 s)) of
           (Some y, Some m, Some d) \<Rightarrow>
             if 1 \<le> m \<and> m \<le> 12 \<and> 1 \<le> d \<and> d \<le> days_in_month y m
             then Some (y, m, d) else None
         | _ \<Rightarrow> None)
      else None)"

text \<open>
  Modelled from the spec: the date object of the facility. It holds the civil day
  number and the wall-clock fields, the zone they are read in, and whether the object
  is a valid date.
\<close>

record zoned =
  z_day :: int
  z_hour :: int
  z_minute :: int
  z_second :: int
  z_millisecond :: int
  z_zone :: tzinfo
  z_ok :: bool

definition invalid_date :: zoned where
  "invalid_date =
     \<lparr>z_day = 0, z_hour = 0, z_minute = 0, z_second = 0, z_millisecond = 0,
      z_zone = \<lparr>base_offset = 0, transitions = []\<rparr>, z_ok = False\<rparr>"

definition wall_ms :: "zoned \<Rightarrow> int" where
  "wall_ms d =
     z_day d * 86400000 + z_hour d * 3600000 + z_minute d * 60000 + z_second d * 1000
       + z_millisecond d"

definition instant :: "zoned \<Rightarrow> int" where
  "instant d = resolve (z_zone d) (wall_ms d)"

definition of_instant :: "tzinfo \<Rightarrow> int \<Rightarrow> zoned" where
  "of_instant z t =
     (let w = to_local z t in
      \<lparr>z_day = w div 86400000, z_hour = (w div 3600000) mod 24,
       z_minute = (w div 60000) mod 60, z_second = (w div 1000) mod 60,
       z_millisecond = w mod 1000, z_zone = z, z_ok = True\<rparr>)"

text \<open>The integer a date setter reads from a number: the fraction is dropped.\<close>

definition toInteger :: "rat \<Rightarrow> int" where
  "toInteger q = (if 0 \<le> q then \<lfloor>q\<rfloor> else \<lceil>q\<rceil>)"

text \<open>
  Modelled from the spec: the anchor. A selected date is read in the zone, at 00:00;
  without one the anchor is the current instant as the zone shows it. A zone the table
  does not know, or a string that is no calendar date, gives an invalid date.
\<close>

definition ct_tz_parse :: "(string \<Rightarrow> tzinfo option) \<Rightarrow> string \<Rightarrow> string \<Rightarrow> zoned" where
  "ct_tz_parse db date tz =
     (case (db tz, parse_date date) of
        (Some z, Some (y, m, d)) \<Rightarrow>
          \<lparr>z_day = days_from_civil y m d, z_hour = 0, z_minute = 0, z_second = 0,
           z_millisecond = 0, z_zone = z, z_ok = True\<rparr>
      | _ \<Rightarrow> invalid_date)"

definition ct_tz_instant :: "(string \<Rightarrow> tzinfo option) \<Rightarrow> int \<Rightarrow> string \<Rightarrow> zoned" where
  "ct_tz_instant db now tz =
     (case db tz of Some z \<Rightarrow> of_instant z now | None \<Rightarrow> invalid_date)"

text \<open>
  Modelled from the spec: day arithmetic is on the civil date, not a fixed number of
  hours. Adding days moves the civil day and keeps the wall-clock fields; a fractional
  count is rounded to the nearest day, and a count that is no finite number gives an
  invalid date. Setting a field of the time of day keeps the civil day and the zone.
\<close>

definition ct_add_day :: "zoned \<Rightarrow> jsnum \<Rightarrow> zoned" where
  "ct_add_day d n =
     (case n of
        Fin q \<Rightarrow> d\<lparr>z_day := z_day d + \<lfloor>q + 1 / 2\<rfloor>\<rparr>
      | _ \<Rightarrow> d\<lparr>z_ok := False\<rparr>)"

definition ct_set_hour :: "zoned \<Rightarrow> jsnum \<Rightarrow> zoned" where
  "ct_set_hour d n =
     (case n of Fin q \<Rightarrow> d\<lparr>z_hour := toInteger q\<rparr> | _ \<Rightarrow> d\<lparr>z_ok := False\<rparr>)"

definition ct_set_minute :: "zoned \<Rightarrow> jsnum \<Rightarrow> zoned" where
  "ct_set_minute d n =
     (case n of Fin q \<Rightarrow> d\<lparr>z_minute := toInteger q\<rparr> | _ \<Rightarrow> d\<lparr>z_ok := False\<rparr>)"

definition ct_set_second :: "zoned \<Rightarrow> jsnum \<Rightarrow> zoned" where
  "ct_set_second d n =
     (case n of Fin q \<Rightarrow> d\<lparr>z_second := toInteger q\<rparr> | _ \<Rightarrow> d\<lparr>z_ok := False\<rparr>)"

definition ct_set_millisecond :: "zoned \<Rightarrow> jsnum \<Rightarrow> zoned" where
  "ct_set_millisecond d n =
     (case n of Fin q \<Rightarrow> d\<lparr>z_millisecond := toInteger q\<rparr> | _ \<Rightarrow> d\<lparr>z_ok := False\<rparr>)"

text \<open>
  Modelled from the spec: one date is after another when its instant is later; two
  dates are on the same day when their civil day in the zone is the same; the value of
  a date is its instant in epoch milliseconds, NaN for an invalid date.
\<close>

definition ct_isAfter :: "zoned \<Rightarrow> zoned \<Rightarrow> bool" where
  "ct_isAfter a b = (z_ok a \<and> z_ok b \<and> instant b < instant a)"

definition ct_isSame_day :: "zoned \<Rightarrow> zoned \<Rightarrow> bool" where
  "ct_isSame_day a b = (z_ok a \<and> z_ok b \<and> z_day a = z_day b)"

definition ct_valueOf :: "zoned \<Rightarrow> jsnum" where
  "ct_valueOf d = (if z_ok d then Fin (of_int (instant d)) else NaN)"

text \<open>
  Modelled from the spec: the facility as the record of operations the module calls,
  over a timezone table \<open>db\<close>. The conversion to UTC keeps the instant, which is all
  the module reads from its result.
\<close>

definition civil_time :: "(string \<Rightarrow> tzinfo option) \<Rightarrow> zoned dayjs_api" where
  "civil_time db =
     \<lparr>tz_parse = ct_tz_parse db, tz_instant = ct_tz_instant db, isValid = z_ok,
      add_day = ct_add_day, set_hour = ct_set_hour, set_minute = ct_set_minute,
      set_second = ct_set_second, set_millisecond = ct_set_millisecond,
      isAfter = ct_isAfter, isSame_day = ct_isSame_day, utc = (\<lambda>d. d),
      valueOf = ct_valueOf\<rparr>"

text \<open>
  The wall-clock time, in milliseconds, of hour \<open>hh\<close> and minute \<open>mm\<close> on a day number,
  and on a calendar date.
\<close>

definition wall_of_day :: "int \<Rightarrow> int \<Rightarrow> int \<Rightarrow> int" where
  "wall_of_day day hh mm = day * 86400000 + hh * 3600000 + mm * 60000"

definition civil_ms :: "int \<Rightarrow> int \<Rightarrow> int \<Rightarrow> int \<Rightarrow> int \<Rightarrow> int" where
  "civil_ms y m d hh mm = wall_of_day (days_from_civil y m d) hh mm"

text \<open>
  Modelled from the spec: an excerpt of the timezone database of the environment, for
  the scenarios of the specification. UTC has no transition; Europe/Warsaw is on CET
  (+60 minutes) and, from 2025-03-30 01:00 UTC to 2025-10-26 01:00 UTC, on CEST (+120
  minutes).
\<close>

definition tz_UTC :: tzinfo where
  "tz_UTC = \<lparr>base_offset = 0, transitions = []\<rparr>"

definition tz_Europe_Warsaw :: tzinfo where
  "tz_Europe_Warsaw =
     \<lparr>base_offset = 60,
      transitions = [(civil_ms 2025 3 30 1 0, 120), (civil_ms 2025 10 26 1 0, 60)]\<rparr>"

definition tzdb :: "string \<Rightarrow> tzinfo option" where
  "tzdb = map_of [(''UTC'', tz_UTC), (''Europe/Warsaw'', tz_Europe_Warsaw)]"

section \<open>Notions used in the statements\<close>

text \<open>
  The anchor of a call: \<^verbatim>\<open>selectedDate ? dayjs.tz(selectedDate, tz) : dayjs.tz(dayjs(), tz)\<close>,
  the expression \<^verbatim>\<open>getShiftTimeRange\<close> checks with \<^verbatim>\<open>isValid()\<close>.
\<close>

definition anchor :: "'d dayjs_api \<Rightarrow> int \<Rightarrow> jsval \<Rightarrow> string option \<Rightarrow> 'd" where
  "anchor L now tz selectedDate =
     (if truthy_str selectedDate
      then tz_parse L (str_val selectedDate) (string_of tz)
      else tz_instant L now (string_of tz))"

text \<open>A number outside the range from 0 to \<open>hi\<close>, as the source tests it.\<close>

definition outside :: "jsnum \<Rightarrow> rat \<Rightarrow> bool" where
  "outside n hi = (js_lt n (Fin 0) \<or> js_gt n (Fin hi))"

text \<open>
  A time of day in the format \<^verbatim>\<open>HH:mm\<close>: two parts that \<^verbatim>\<open>Number\<close> reads as the
  integers \<open>h\<close>, from 0 to 23, and \<open>m\<close>, from 0 to 59.
\<close>

definition valid_time :: "string \<Rightarrow> int \<Rightarrow> int \<Rightarrow> bool" where
  "valid_time str h m =
     (length (split_colon str) = 2
      \<and> Number (split_colon str ! 0) = Fin (of_int h)
      \<and> Number (split_colon str ! 1) = Fin (of_int m)
      \<and> 0 \<le> h \<and> h \<le> 23 \<and> 0 \<le> m \<and> m \<le> 59)"

text \<open>
  The days a date offset moves the anchor by: none when the field is missing, 0 or NaN
  (all falsy), else the count rounded to whole days. An infinite offset gives no date.
\<close>

fun offset_days :: "jsnum option \<Rightarrow> int" where
  "offset_days (Some (Fin q)) = \<lfloor>q + 1 / 2\<rfloor>"
| "offset_days _ = 0"

definition finite_offset :: "jsnum option \<Rightarrow> bool" where
  "finite_offset n = (n \<noteq> Some PosInf \<and> n \<noteq> Some NegInf)"

text \<open>
  The civil day of the anchor in the civil-time facility: the selected date, or the day
  the clock shows in the zone; \<open>None\<close> when the anchor is not valid.
\<close>

definition anchor_day :: "(string \<Rightarrow> tzinfo option) \<Rightarrow> int \<Rightarrow> string \<Rightarrow> string option \<Rightarrow> int option" where
  "anchor_day db now tz selectedDate =
     (case db tz of
        None \<Rightarrow> None
      | Some z \<Rightarrow>
          if truthy_str selectedDate then
            (case parse_date (str_val selectedDate) of
               None \<Rightarrow> None
             | Some (y, m, d) \<Rightarrow> Some (days_from_civil y m d))
          else Some (to_local z now div 86400000))"

text \<open>A shift with both times present, as the editor of the panel stores it.\<close>

definition Shift :: "string \<Rightarrow> string \<Rightarrow> string \<Rightarrow> jsnum option \<Rightarrow> shift" where
  "Shift n a b off =
     \<lparr>shift_name = n, shift_start = Some a, shift_end = Some b, shift_dateOffset = off\<rparr>"



section \<open>Auxiliary facts\<close>

lemma offset_walk_mem: "offset_walk cur trs t \<in> set (cur # map snd trs)"
proof (induction trs arbitrary: cur)
  case Nil
  show ?case by simp
next
  case (Cons p trs)
  obtain since off where p: "p = (since, off)" by (cases p)
  show ?case
  proof (cases "since \<le> t")
    case True
    then show ?thesis using Cons.IH[of off] p by auto
  next
    case False
    then show ?thesis using p by simp
  qed
qed

lemma offset_at_mem: "offset_at z t \<in> set (offsets z)"
  using offset_walk_mem[of "base_offset z" "transitions z" t]
  by (simp add: offset_at_def offsets_def)

text \<open>A wall-clock time that some instant shows is resolved to an instant that shows it.\<close>

lemma resolve_exists:
  assumes "to_local z t = w"
  shows "to_local z (resolve z w) = w"
proof -
  let ?P = "\<lambda>off. offset_at z (w - off * 60000) = off"
  have "w - offset_at z t * 60000 = t" using assms by (simp add: to_local_def)
  then have "?P (offset_at z t)" by simp
  then have "\<exists>off \<in> set (offsets z). ?P off" using offset_at_mem by blast
  then obtain off where f: "find ?P (offsets z) = Some off"
    by (cases "find ?P (offsets z)") (auto simp: find_None_iff)
  then have "?P off" by (auto simp: find_Some_iff)
  then show ?thesis using f by (simp add: resolve_def to_local_def)
qed

lemma toInteger_of_int: "toInteger (of_int k) = k"
  by (simp add: toInteger_def)

lemma toInteger_zero: "toInteger 0 = 0"
  by (simp add: toInteger_def)

lemma floor_three_halves: "\<lfloor>3 / 2 :: rat\<rfloor> = 1"
  by (rule floor_unique) simp_all

lemma floor_one_half: "\<lfloor>1 / 2 :: rat\<rfloor> = 0"
  by (rule floor_unique) simp_all

lemma offset_days_of_int: "offset_days (Some (Fin (of_int k))) = k"
proof -
  have "\<lfloor>(of_int k :: rat) + 1 / 2\<rfloor> = k" by linarith
  then show ?thesis by simp
qed



text \<open>
  The interval the module returns over the civil-time facility, for a shift with two
  valid times of day, a known zone and a valid anchor: the start and the end are put on
  the anchor day, and the end is moved to the next day when the start is after it.
\<close>

lemma range_civil_time:
  assumes s: "shift_start s = Some a" "shift_end s = Some b"
    and a: "valid_time a h1 m1" and b: "valid_time b h2 m2"
    and tz: "tz \<noteq> []" "db tz = Some z"
    and day: "anchor_day db now tz sd = Some day0"
    and off: "finite_offset (shift_dateOffset s)"
  shows "getShiftTimeRange (civil_time db) now (Some s) (JString tz) sd =
           (let day = day0 + offset_days (shift_dateOffset s);
                w1 = wall_of_day day h1 m1;
                w2 = wall_of_day day h2 m2
            in Inr (Fin (of_int (resolve z w1)),
                    Fin (of_int (resolve z
                      (if resolve z w2 < resolve z w1 then wall_of_day (day + 1) h2 m2 else w2)))))"
proof -
  have ne: "a \<noteq> []" "b \<noteq> []"
    using a b by (auto simp: valid_time_def)
  note defs = getShiftTimeRange_def valid_time_def civil_time_def Let_def isNaN_def
        js_gt_def ct_tz_parse_def ct_tz_instant_def of_instant_def
        ct_set_hour_def ct_set_minute_def ct_set_second_def
        ct_set_millisecond_def ct_add_day_def ct_isAfter_def ct_valueOf_def instant_def
        wall_ms_def wall_of_day_def toInteger_of_int toInteger_zero floor_three_halves
        floor_one_half finite_offset_def anchor_day_def algebra_simps
  show ?thesis
  proof (cases "shift_dateOffset s")
    case None
    then show ?thesis using assms ne
      by (cases "truthy_str sd") (auto simp add: defs split: option.splits)
  next
    case (Some n)
    then show ?thesis using assms ne
      by (cases n; cases "truthy_str sd") (auto simp add: defs split: option.splits)
  qed
qed

text \<open>Values of the scenarios, computed once.\<close>

lemma parse_2025_01_15: "parse_date ''2025-01-15'' = Some (2025, 1, 15)"
  by code_simp

lemma parse_2025_01_14: "parse_date ''2025-01-14'' = Some (2025, 1, 14)"
  by code_simp


lemma tzdb_UTC: "tzdb ''UTC'' = Some tz_UTC"
  by (simp add: tzdb_def)

lemma tzdb_Warsaw: "tzdb ''Europe/Warsaw'' = Some tz_Europe_Warsaw"
  by (simp add: tzdb_def)

lemma anchor_day_2025_01_15:
  "anchor_day tzdb now ''Europe/Warsaw'' (Some ''2025-01-15'') = Some 20103"
  "anchor_day tzdb now ''UTC'' (Some ''2025-01-15'') = Some 20103"
  by (simp_all add: anchor_day_def tzdb_UTC tzdb_Warsaw parse_2025_01_15 days_from_civil_def)


lemma valid_times:
  "valid_time ''08:00'' 8 0" "valid_time ''16:00'' 16 0" "valid_time ''22:00'' 22 0"
  "valid_time ''06:00'' 6 0" "valid_time ''20:00'' 20 0" "valid_time ''04:00'' 4 0"
  "valid_time ''12:30'' 12 30" "valid_time ''02:30'' 2 30"
  by code_simp+

lemma anchors_valid:
  "isValid (civil_time tzdb) (anchor (civil_time tzdb) now (JString ''UTC'') (Some ''2025-01-15''))"
  "isValid (civil_time tzdb) (anchor (civil_time tzdb) now (JString ''Europe/Warsaw'') (Some ''2025-01-15''))"
  by (simp_all add: civil_time_def anchor_def ct_tz_parse_def tzdb_UTC tzdb_Warsaw
      parse_2025_01_15)











section \<open>The claims\<close>

subsection \<open>Claims settled for any date library\<close>

text \<open>
  C10. The field \<^verbatim>\<open>name\<close> is never read: two shifts with the same start, end and date
  offset get the same interval or the same error from \<^verbatim>\<open>getShiftTimeRange\<close>, and the
  same answer from \<^verbatim>\<open>isShiftActive\<close>, for every timezone, selected date and clock.
\<close>

theorem name_not_read:
  assumes "shift_start s1 = shift_start s2" and "shift_end s1 = shift_end s2"
    and "shift_dateOffset s1 = shift_dateOffset s2"
  shows "getShiftTimeRange L now (Some s1) tz sd = getShiftTimeRange L now (Some s2) tz sd
       \<and> isShiftActive L now (Some s1) tz sd = isShiftActive L now (Some s2) tz sd"
proof -
  have "getShiftTimeRange L now (Some s1) tz sd = getShiftTimeRange L now (Some s2) tz sd"
    unfolding getShiftTimeRange_def by (simp only: assms option.case)
  then show ?thesis by (simp add: isShiftActive_def)
qed

theorem name_not_read_witness:
  "getShiftTimeRange (civil_time tzdb) 0 (Some (Shift ''Night'' ''22:00'' ''06:00'' None))
       (JString ''UTC'') (Some ''2025-01-15'')
     = getShiftTimeRange (civil_time tzdb) 0 (Some (Shift ''Late'' ''22:00'' ''06:00'' None))
       (JString ''UTC'') (Some ''2025-01-15'')
   \<and> isShiftActive (civil_time tzdb) 0 (Some (Shift ''Night'' ''22:00'' ''06:00'' None))
       (JString ''UTC'') (Some ''2025-01-15'')
     = isShiftActive (civil_time tzdb) 0 (Some (Shift ''Late'' ''22:00'' ''06:00'' None))
       (JString ''UTC'') (Some ''2025-01-15'')"
  using name_not_read[of "Shift ''Night'' ''22:00'' ''06:00'' None"
      "Shift ''Late'' ''22:00'' ''06:00'' None" "civil_time tzdb" 0 "JString ''UTC''"
      "Some ''2025-01-15''"]
  by (simp add: Shift_def)

text \<open>
  C9. The anchor is checked before the time strings are read: when the timezone is
  empty or no string, or the anchor built from timezone and date is not valid, a shift
  that has a start and an end fails with the timezone error of that check, whatever
  the two time strings hold; no format, value, hour or minute error is raised.
\<close>

theorem anchor_check_first:
  assumes "truthy_str (shift_start s)" and "truthy_str (shift_end s)"
    and "\<not> truthy tz \<or> \<not> is_string tz \<or> \<not> isValid L (anchor L now tz sd)"
  shows "getShiftTimeRange L now (Some s) tz sd =
           (if \<not> truthy tz \<or> \<not> is_string tz then Inl InvalidTimezone
            else Inl InvalidTimezoneOrDate)"
  using assms by (auto simp add: getShiftTimeRange_def anchor_def)

theorem anchor_check_first_witness:
  "getShiftTimeRange (civil_time tzdb) 0 (Some (Shift ''Bad'' ''25:61'' ''xx'' None))
       (JString ''Mars/Phobos'') (Some ''2025-01-15'') = Inl InvalidTimezoneOrDate
   \<and> getShiftTimeRange (civil_time tzdb) 0 (Some (Shift ''Bad'' ''25:61'' ''xx'' None))
       (JString ''UTC'') (Some ''2025-02-30'') = Inl InvalidTimezoneOrDate
   \<and> getShiftTimeRange (civil_time tzdb) 0 (Some (Shift ''Bad'' ''25:61'' ''xx'' None))
       (JString []) (Some ''2025-01-15'') = Inl InvalidTimezone"
proof -
  have a: "\<not> isValid (civil_time tzdb)
             (anchor (civil_time tzdb) 0 (JString ''Mars/Phobos'') (Some ''2025-01-15''))"
    by (simp add: civil_time_def anchor_def ct_tz_parse_def tzdb_def invalid_date_def)
  have "parse_date ''2025-02-30'' = None" by code_simp
  then have b: "\<not> isValid (civil_time tzdb)
             (anchor (civil_time tzdb) 0 (JString ''UTC'') (Some ''2025-02-30''))"
    by (simp add: civil_time_def anchor_def ct_tz_parse_def tzdb_UTC invalid_date_def)
  show ?thesis
    using anchor_check_first[of "Shift ''Bad'' ''25:61'' ''xx'' None" "JString ''Mars/Phobos''"
        "civil_time tzdb" 0 "Some ''2025-01-15''"]
      anchor_check_first[of "Shift ''Bad'' ''25:61'' ''xx'' None" "JString ''UTC''"
        "civil_time tzdb" 0 "Some ''2025-02-30''"]
      anchor_check_first[of "Shift ''Bad'' ''25:61'' ''xx'' None" "JString []"
        "civil_time tzdb" 0 "Some ''2025-01-15''"] a b
    by (simp add: Shift_def)
qed

text \<open>
  C7. For a shift that has a start and an end, \<^verbatim>\<open>getShiftTimeRange\<close> fails with the
  timezone error when the timezone is empty or not a string, and with the timezone or
  date error when the anchor built from the timezone and the selected or current date
  is not a valid date. The timezone \<^verbatim>\<open>''\<close> fails so.
\<close>

theorem invalid_timezone:
  assumes "truthy_str (shift_start s)" and "truthy_str (shift_end s)"
  shows "(\<not> truthy tz \<or> \<not> is_string tz \<longrightarrow>
            getShiftTimeRange L now (Some s) tz sd = Inl InvalidTimezone)
       \<and> (truthy tz \<and> is_string tz \<and> \<not> isValid L (anchor L now tz sd) \<longrightarrow>
            getShiftTimeRange L now (Some s) tz sd = Inl InvalidTimezoneOrDate)"
  using assms by (auto simp add: getShiftTimeRange_def anchor_def)

theorem invalid_timezone_witness:
  "getShiftTimeRange (civil_time tzdb) 0 (Some (Shift ''Morning'' ''08:00'' ''16:00'' None))
       (JString '''') (Some ''2025-01-15'') = Inl InvalidTimezone
   \<and> getShiftTimeRange (civil_time tzdb) 0 (Some (Shift ''Morning'' ''08:00'' ''16:00'' None))
       JNull (Some ''2025-01-15'') = Inl InvalidTimezone
   \<and> getShiftTimeRange (civil_time tzdb) 0 (Some (Shift ''Morning'' ''08:00'' ''16:00'' None))
       (JString ''Mars/Phobos'') None = Inl InvalidTimezoneOrDate"
proof -
  have a: "\<not> isValid (civil_time tzdb) (anchor (civil_time tzdb) 0 (JString ''Mars/Phobos'') None)"
    by (simp add: civil_time_def anchor_def ct_tz_instant_def tzdb_def invalid_date_def)
  show ?thesis
    using invalid_timezone[of "Shift ''Morning'' ''08:00'' ''16:00'' None" "JString ''''"
        "civil_time tzdb" 0 "Some ''2025-01-15''"]
      invalid_timezone[of "Shift ''Morning'' ''08:00'' ''16:00'' None" JNull
        "civil_time tzdb" 0 "Some ''2025-01-15''"]
      invalid_timezone[of "Shift ''Morning'' ''08:00'' ''16:00'' None" "JString ''Mars/Phobos''"
        "civil_time tzdb" 0 None] a
    by (simp add: Shift_def)
qed

text \<open>
  C6. For a shift whose start and end split into two parts that are numbers, with a
  timezone and an anchor that pass their checks, \<^verbatim>\<open>getShiftTimeRange\<close> fails with the
  hour error when an hour is outside 0 to 23, and with the minute error when both hours
  are inside and a minute is outside 0 to 59. The start \<^verbatim>\<open>25:00\<close> gives the hour
  error and the start \<^verbatim>\<open>08:60\<close> the minute error.
\<close>

theorem hour_minute_range:
  assumes "truthy_str (shift_start s)" and "truthy_str (shift_end s)"
    and "truthy tz" and "is_string tz" and "isValid L (anchor L now tz sd)"
    and "split_colon (str_val (shift_start s)) = [sh, sm]"
    and "split_colon (str_val (shift_end s)) = [eh, em]"
    and "Number sh \<noteq> NaN" and "Number sm \<noteq> NaN" and "Number eh \<noteq> NaN" and "Number em \<noteq> NaN"
  shows "(outside (Number sh) 23 \<or> outside (Number eh) 23 \<longrightarrow>
            getShiftTimeRange L now (Some s) tz sd = Inl InvalidHourValues)
       \<and> (\<not> outside (Number sh) 23 \<and> \<not> outside (Number eh) 23
            \<and> (outside (Number sm) 59 \<or> outside (Number em) 59) \<longrightarrow>
            getShiftTimeRange L now (Some s) tz sd = Inl InvalidMinuteValues)"
  using assms
  by (auto simp add: getShiftTimeRange_def anchor_def outside_def isNaN_def Let_def)

theorem hour_minute_range_witness:
  "getShiftTimeRange (civil_time tzdb) 0 (Some (Shift ''Invalid Hour'' ''25:00'' ''16:00'' None))
       (JString ''UTC'') (Some ''2025-01-15'') = Inl InvalidHourValues
   \<and> getShiftTimeRange (civil_time tzdb) 0 (Some (Shift ''Invalid Minutes'' ''08:60'' ''16:00'' None))
       (JString ''UTC'') (Some ''2025-01-15'') = Inl InvalidMinuteValues"
proof -
  have n: "Number ''25'' = Fin 25" "Number ''00'' = Fin 0" "Number ''16'' = Fin 16"
    "Number ''08'' = Fin 8" "Number ''60'' = Fin 60"
    by code_simp+
  have sp: "split_colon ''25:00'' = [''25'', ''00'']" "split_colon ''16:00'' = [''16'', ''00'']"
    "split_colon ''08:60'' = [''08'', ''60'']"
    by simp_all
  show ?thesis
    using hour_minute_range[of "Shift ''Invalid Hour'' ''25:00'' ''16:00'' None" "JString ''UTC''"
        "civil_time tzdb" 0 "Some ''2025-01-15''" "''25''" "''00''" "''16''" "''00''"]
      hour_minute_range[of "Shift ''Invalid Minutes'' ''08:60'' ''16:00'' None" "JString ''UTC''"
        "civil_time tzdb" 0 "Some ''2025-01-15''" "''08''" "''60''" "''16''" "''00''"]
      anchors_valid(1)[of 0] n sp
    by (simp add: Shift_def outside_def js_gt_def)
qed

text \<open>
  C8 (amended). For a shift whose start and end split into exactly two parts, with a
  timezone and an anchor that pass their checks, \<^verbatim>\<open>getShiftTimeRange\<close> fails with the
  time value error exactly when \<^verbatim>\<open>Number\<close> turns one of the four parts into NaN. A
  part that is a number and no integer, such as \<^verbatim>\<open>8.5\<close>, is not rejected by this check.
\<close>

theorem time_values_nan:
  assumes "truthy_str (shift_start s)" and "truthy_str (shift_end s)"
    and "truthy tz" and "is_string tz" and "isValid L (anchor L now tz sd)"
    and "split_colon (str_val (shift_start s)) = [sh, sm]"
    and "split_colon (str_val (shift_end s)) = [eh, em]"
  shows "(getShiftTimeRange L now (Some s) tz sd = Inl InvalidTimeValues)
       = (Number sh = NaN \<or> Number sm = NaN \<or> Number eh = NaN \<or> Number em = NaN)"
  using assms
  by (auto simp add: getShiftTimeRange_def anchor_def isNaN_def Let_def)

theorem time_values_nan_witness:
  "getShiftTimeRange (civil_time tzdb) 0 (Some (Shift ''Letters'' ''ab:00'' ''16:00'' None))
       (JString ''UTC'') (Some ''2025-01-15'') = Inl InvalidTimeValues"
proof -
  have n: "Number ''ab'' = NaN" by code_simp
  have sp: "split_colon ''ab:00'' = [''ab'', ''00'']" "split_colon ''16:00'' = [''16'', ''00'']"
    by simp_all
  show ?thesis
    using time_values_nan[of "Shift ''Letters'' ''ab:00'' ''16:00'' None" "JString ''UTC''"
        "civil_time tzdb" 0 "Some ''2025-01-15''" "''ab''" "''00''" "''16''" "''00''"]
      anchors_valid(1)[of 0] n sp
    by (simp add: Shift_def)
qed

text \<open>
  The claim C8 as stated fails: the start \<^verbatim>\<open>8.5:00\<close> splits into two parts, the part
  \<^verbatim>\<open>8.5\<close> is no integer, and the call returns the interval from 08:00 to 16:00.
\<close>

theorem fraction_not_rejected:
  "split_colon ''8.5:00'' = [''8.5'', ''00''] \<and> Number ''8.5'' = Fin (17 / 2)
   \<and> getShiftTimeRange (civil_time tzdb) 0 (Some (Shift ''Half'' ''8.5:00'' ''16:00'' None))
        (JString ''UTC'') (Some ''2025-01-15'')
      = Inr (Fin (of_int (civil_ms 2025 1 15 8 0)), Fin (of_int (civil_ms 2025 1 15 16 0)))"
  by code_simp

text \<open>
  C2. When a selected date is supplied and the interval is computed, \<^verbatim>\<open>isShiftActive\<close>
  answers true exactly when the selected date and the current instant are on the same
  civil day in the timezone and the current instant lies in the closed interval from
  \<open>from\<close> to \<open>to\<close>; on another day the answer is false, whatever the interval.
\<close>

theorem active_iff:
  assumes "sd \<noteq> []"
    and "getShiftTimeRange L now shift tz (Some sd) = Inr (from_ms, to_ms)"
  shows "isShiftActive L now shift tz (Some sd) =
           Inr (isSame_day L (tz_parse L sd (string_of tz)) (tz_instant L now (string_of tz))
                \<and> js_ge (Fin (of_int now)) from_ms \<and> js_le (Fin (of_int now)) to_ms)"
  using assms by (simp add: isShiftActive_def Let_def)

theorem active_iff_witness:
  "isShiftActive (civil_time tzdb) (civil_ms 2025 1 15 9 0)
       (Some (Shift ''Morning'' ''08:00'' ''16:00'' None)) (JString ''UTC'') (Some ''2025-01-15'')
     = Inr True
   \<and> getShiftTimeRange (civil_time tzdb) (civil_ms 2025 1 15 9 0)
       (Some (Shift ''Long'' ''22:00'' ''16:00'' None)) (JString ''UTC'') (Some ''2025-01-14'')
     = Inr (Fin (of_int (civil_ms 2025 1 14 22 0)), Fin (of_int (civil_ms 2025 1 15 16 0)))
   \<and> isShiftActive (civil_time tzdb) (civil_ms 2025 1 15 9 0)
       (Some (Shift ''Long'' ''22:00'' ''16:00'' None)) (JString ''UTC'') (Some ''2025-01-14'')
     = Inr False"
proof -
  let ?L = "civil_time tzdb"
  let ?now = "civil_ms 2025 1 15 9 0"
  have r1: "getShiftTimeRange ?L ?now (Some (Shift ''Morning'' ''08:00'' ''16:00'' None))
              (JString ''UTC'') (Some ''2025-01-15'')
            = Inr (Fin (of_int (civil_ms 2025 1 15 8 0)), Fin (of_int (civil_ms 2025 1 15 16 0)))"
    by code_simp
  have r2: "getShiftTimeRange ?L ?now (Some (Shift ''Long'' ''22:00'' ''16:00'' None))
              (JString ''UTC'') (Some ''2025-01-14'')
            = Inr (Fin (of_int (civil_ms 2025 1 14 22 0)), Fin (of_int (civil_ms 2025 1 15 16 0)))"
    by code_simp
  have d1: "isSame_day ?L (tz_parse ?L ''2025-01-15'' ''UTC'') (tz_instant ?L ?now ''UTC'')"
    by code_simp
  have d2: "\<not> isSame_day ?L (tz_parse ?L ''2025-01-14'' ''UTC'') (tz_instant ?L ?now ''UTC'')"
    by code_simp
  have i1: "js_ge (Fin (of_int ?now)) (Fin (of_int (civil_ms 2025 1 15 8 0)))"
    "js_le (Fin (of_int ?now)) (Fin (of_int (civil_ms 2025 1 15 16 0)))"
    by code_simp+
  have ne: "''2025-01-15'' \<noteq> []" "''2025-01-14'' \<noteq> []" by simp_all
  show ?thesis
    using active_iff[OF ne(1) r1] active_iff[OF ne(2) r2] r2 d1 d2 i1 by simp
qed

subsection \<open>Claims on the interval, over the civil-time facility\<close>

text \<open>
  C1 (amended). For a shift with two valid times of day, a known zone and a valid
  anchor, \<^verbatim>\<open>getShiftTimeRange\<close> puts the start and the end on the anchor day (moved by
  the date offset) and moves the end to the same wall-clock time one calendar day later
  exactly when the start instant is strictly after the end instant. When the start
  equals the end no day is added, and the interval has length zero.
\<close>

theorem overnight_rule:
  assumes "shift_start s = Some a" and "shift_end s = Some b"
    and "valid_time a h1 m1" and "valid_time b h2 m2"
    and "tz \<noteq> []" and "db tz = Some z"
    and "anchor_day db now tz sd = Some day0"
    and "finite_offset (shift_dateOffset s)"
    and "day = day0 + offset_days (shift_dateOffset s)"
  shows "getShiftTimeRange (civil_time db) now (Some s) (JString tz) sd =
           Inr (Fin (of_int (resolve z (wall_of_day day h1 m1))),
                Fin (of_int (resolve z
                  (if resolve z (wall_of_day day h2 m2) < resolve z (wall_of_day day h1 m1)
                   then wall_of_day (day + 1) h2 m2 else wall_of_day day h2 m2))))
       \<and> (h1 = h2 \<and> m1 = m2 \<longrightarrow>
            getShiftTimeRange (civil_time db) now (Some s) (JString tz) sd =
              Inr (Fin (of_int (resolve z (wall_of_day day h1 m1))),
                   Fin (of_int (resolve z (wall_of_day day h1 m1)))))"
  using range_civil_time[OF assms(1-8)] assms(9) by (simp add: Let_def)

theorem overnight_rule_witness:
  "getShiftTimeRange (civil_time tzdb) 0 (Some (Shift ''Night'' ''22:00'' ''06:00'' None))
       (JString ''Europe/Warsaw'') (Some ''2025-01-15'')
     = Inr (Fin 1736974800000, Fin 1737003600000)
   \<and> to_local tz_Europe_Warsaw 1736974800000 = civil_ms 2025 1 15 22 0
   \<and> to_local tz_Europe_Warsaw 1737003600000 = civil_ms 2025 1 16 6 0
   \<and> getShiftTimeRange (civil_time tzdb) 0 (Some (Shift ''Round'' ''06:00'' ''06:00'' None))
       (JString ''Europe/Warsaw'') (Some ''2025-01-15'')
     = Inr (Fin 1736917200000, Fin 1736917200000)"
proof -
  have r: "resolve tz_Europe_Warsaw (wall_of_day 20103 22 0) = 1736974800000"
    "resolve tz_Europe_Warsaw (wall_of_day 20103 6 0) = 1736917200000"
    "resolve tz_Europe_Warsaw (wall_of_day 20104 6 0) = 1737003600000"
    by code_simp+
  have l: "to_local tz_Europe_Warsaw 1736974800000 = civil_ms 2025 1 15 22 0"
    "to_local tz_Europe_Warsaw 1737003600000 = civil_ms 2025 1 16 6 0"
    by code_simp+
  show ?thesis
    using overnight_rule[of "Shift ''Night'' ''22:00'' ''06:00'' None" "''22:00''" "''06:00''"
        22 0 6 0 "''Europe/Warsaw''" tzdb tz_Europe_Warsaw 0 "Some ''2025-01-15''" 20103 20103]
      overnight_rule[of "Shift ''Round'' ''06:00'' ''06:00'' None" "''06:00''" "''06:00''"
        6 0 6 0 "''Europe/Warsaw''" tzdb tz_Europe_Warsaw 0 "Some ''2025-01-15''" 20103 20103]
      valid_times anchor_day_2025_01_15(1)[of 0] tzdb_Warsaw r l
    by (simp add: Shift_def finite_offset_def)
qed

text \<open>
  The claim C1 as stated fails for equal start and end: the shift from 08:00 to 08:00
  on 2025-01-15 in UTC gets the same instant twice, not a span of 24 hours.
\<close>

theorem equal_times_no_day_added:
  "getShiftTimeRange (civil_time tzdb) 0 (Some (Shift ''Full Day'' ''08:00'' ''08:00'' None))
       (JString ''UTC'') (Some ''2025-01-15'')
     = Inr (Fin (of_int (civil_ms 2025 1 15 8 0)), Fin (of_int (civil_ms 2025 1 15 8 0)))
   \<and> civil_ms 2025 1 15 8 0 \<noteq> civil_ms 2025 1 16 8 0"
  by code_simp

text \<open>
  C3 (amended). For a shift with two valid times of day, a known zone and a valid
  anchor, when the start time exists on the anchor day in the zone and the end time
  exists on the day it is put on (neither is skipped by a transition of the zone),
  reading the returned instants back in the zone gives the start time on the anchor day
  and the end time on the anchor day, or on the next day when the end was moved.
\<close>

theorem round_trip:
  assumes "shift_start s = Some a" and "shift_end s = Some b"
    and "valid_time a h1 m1" and "valid_time b h2 m2"
    and "tz \<noteq> []" and "db tz = Some z"
    and "anchor_day db now tz sd = Some day0"
    and "finite_offset (shift_dateOffset s)"
    and "day = day0 + offset_days (shift_dateOffset s)"
    and "day_to = (if resolve z (wall_of_day day h2 m2) < resolve z (wall_of_day day h1 m1)
                   then day + 1 else day)"
    and "\<exists>i. to_local z i = wall_of_day day h1 m1"
    and "\<exists>i. to_local z i = wall_of_day day_to h2 m2"
    and "getShiftTimeRange (civil_time db) now (Some s) (JString tz) sd =
           Inr (Fin (of_int from_ms), Fin (of_int to_ms))"
  shows "to_local z from_ms = wall_of_day day h1 m1
       \<and> to_local z to_ms = wall_of_day day_to h2 m2"
proof -
  have "getShiftTimeRange (civil_time db) now (Some s) (JString tz) sd =
          Inr (Fin (of_int (resolve z (wall_of_day day h1 m1))),
               Fin (of_int (resolve z (wall_of_day day_to h2 m2))))"
    using range_civil_time[OF assms(1-8)] assms(9,10) by (simp add: Let_def)
  then have "from_ms = resolve z (wall_of_day day h1 m1)"
    and "to_ms = resolve z (wall_of_day day_to h2 m2)"
    using assms(13) by simp_all
  then show ?thesis
    using assms(11,12) resolve_exists by blast
qed

theorem round_trip_witness:
  "getShiftTimeRange (civil_time tzdb) 0 (Some (Shift ''Morning'' ''08:00'' ''16:00'' None))
       (JString ''Europe/Warsaw'') (Some ''2025-01-15'')
     = Inr (Fin (of_int 1736924400000), Fin (of_int 1736953200000))
   \<and> to_local tz_Europe_Warsaw 1736924400000 = civil_ms 2025 1 15 8 0
   \<and> to_local tz_Europe_Warsaw 1736953200000 = civil_ms 2025 1 15 16 0"
proof -
  have e: "getShiftTimeRange (civil_time tzdb) 0 (Some (Shift ''Morning'' ''08:00'' ''16:00'' None))
             (JString ''Europe/Warsaw'') (Some ''2025-01-15'')
           = Inr (Fin (of_int 1736924400000), Fin (of_int 1736953200000))"
    by code_simp
  have s: "shift_start (Shift ''Morning'' ''08:00'' ''16:00'' None) = Some ''08:00''"
    "shift_end (Shift ''Morning'' ''08:00'' ''16:00'' None) = Some ''16:00''"
    "finite_offset (shift_dateOffset (Shift ''Morning'' ''08:00'' ''16:00'' None))"
    "20103 = 20103 + offset_days (shift_dateOffset (Shift ''Morning'' ''08:00'' ''16:00'' None))"
    by (simp_all add: Shift_def finite_offset_def)
  have ne: "''Europe/Warsaw'' \<noteq> []" by simp
  have d: "20103 = (if resolve tz_Europe_Warsaw (wall_of_day 20103 16 0)
                       < resolve tz_Europe_Warsaw (wall_of_day 20103 8 0)
                    then 20103 + 1 else (20103 :: int))"
    by code_simp
  have "to_local tz_Europe_Warsaw 1736924400000 = wall_of_day 20103 8 0"
    and "to_local tz_Europe_Warsaw 1736953200000 = wall_of_day 20103 16 0"
    by code_simp+
  then have x: "\<exists>i. to_local tz_Europe_Warsaw i = wall_of_day 20103 8 0"
    "\<exists>i. to_local tz_Europe_Warsaw i = wall_of_day 20103 16 0"
    by blast+
  have c: "civil_ms 2025 1 15 8 0 = wall_of_day 20103 8 0"
    "civil_ms 2025 1 15 16 0 = wall_of_day 20103 16 0"
    by (simp_all add: civil_ms_def days_from_civil_def)
  note w = round_trip[OF s(1) s(2) valid_times(1) valid_times(2) ne tzdb_Warsaw
      anchor_day_2025_01_15(1)[of 0] s(3) s(4) d x e]
  show ?thesis using e w c by simp
qed

text \<open>
  The claim C3 as stated fails where the zone skips the start time: on 2025-03-30 the
  clocks of Europe/Warsaw go from 02:00 to 03:00, no instant shows 02:30 on that day,
  and the instant returned for the start \<^verbatim>\<open>02:30\<close> shows 03:30.
\<close>

lemma warsaw_skips_0230: "to_local tz_Europe_Warsaw i \<noteq> civil_ms 2025 3 30 2 30"
  by (simp add: to_local_def offset_at_def tz_Europe_Warsaw_def civil_ms_def wall_of_day_def
      days_from_civil_def)

theorem skipped_time_no_round_trip:
  "map_sum id fst
     (getShiftTimeRange (civil_time tzdb) 0 (Some (Shift ''Early'' ''02:30'' ''16:00'' None))
        (JString ''Europe/Warsaw'') (Some ''2025-03-30''))
     = Inr (Fin 1743298200000)
   \<and> to_local tz_Europe_Warsaw 1743298200000 = civil_ms 2025 3 30 3 30
   \<and> civil_ms 2025 3 30 3 30 \<noteq> civil_ms 2025 3 30 2 30"
  by code_simp

text \<open>
  C4. A date offset of \<open>k\<close> days gives what the same shift without offset gives on the
  selected date moved by \<open>k\<close> calendar days: the same interval, or the same error. The
  offset moves the anchor once, before start and end are put on it.
\<close>

theorem dateOffset_moves_anchor:
  assumes "parse_date sd = Some (y, m, d)" and "parse_date sd' = Some (y', m', d')"
    and "days_from_civil y' m' d' = days_from_civil y m d + k"
    and "shift_dateOffset s = Some (Fin (of_int k))"
  shows "getShiftTimeRange (civil_time db) now (Some s) tz (Some sd)
       = getShiftTimeRange (civil_time db) now (Some (s\<lparr>shift_dateOffset := None\<rparr>)) tz (Some sd')"
proof -
  have ne: "sd \<noteq> []" "sd' \<noteq> []"
    using assms(1,2) by (auto simp: parse_date_def)
  show ?thesis
  proof (cases "db (string_of tz)")
    case None
    then show ?thesis using assms ne
      by (simp add: getShiftTimeRange_def civil_time_def ct_tz_parse_def invalid_date_def)
  next
    case (Some z)
    then show ?thesis using assms ne
      by (cases "k = 0")
         (simp_all add: getShiftTimeRange_def civil_time_def ct_tz_parse_def ct_add_day_def
            offset_days_of_int[simplified] Let_def)
  qed
qed

theorem dateOffset_moves_anchor_witness:
  "getShiftTimeRange (civil_time tzdb) 0
       (Some (Shift ''Previous Day Shift'' ''20:00'' ''04:00'' (Some (Fin (- 1)))))
       (JString ''Europe/Warsaw'') (Some ''2025-01-15'')
     = getShiftTimeRange (civil_time tzdb) 0
       (Some (Shift ''Previous Day Shift'' ''20:00'' ''04:00'' None))
       (JString ''Europe/Warsaw'') (Some ''2025-01-14'')
   \<and> getShiftTimeRange (civil_time tzdb) 0
       (Some (Shift ''Previous Day Shift'' ''20:00'' ''04:00'' None))
       (JString ''Europe/Warsaw'') (Some ''2025-01-14'')
     = Inr (Fin 1736881200000, Fin 1736910000000)
   \<and> to_local tz_Europe_Warsaw 1736881200000 = civil_ms 2025 1 14 20 0
   \<and> to_local tz_Europe_Warsaw 1736910000000 = civil_ms 2025 1 15 4 0"
proof -
  have e: "getShiftTimeRange (civil_time tzdb) 0
       (Some (Shift ''Previous Day Shift'' ''20:00'' ''04:00'' None))
       (JString ''Europe/Warsaw'') (Some ''2025-01-14'')
     = Inr (Fin 1736881200000, Fin 1736910000000)"
    by code_simp
  have l: "to_local tz_Europe_Warsaw 1736881200000 = civil_ms 2025 1 14 20 0"
    "to_local tz_Europe_Warsaw 1736910000000 = civil_ms 2025 1 15 4 0"
    by code_simp+
  have k: "days_from_civil 2025 1 14 = days_from_civil 2025 1 15 + (- 1)"
    by (simp add: days_from_civil_def)
  have o: "shift_dateOffset (Shift ''Previous Day Shift'' ''20:00'' ''04:00'' (Some (Fin (- 1))))
             = Some (Fin (of_int (- 1)))"
    by (simp add: Shift_def)
  have u: "(Shift ''Previous Day Shift'' ''20:00'' ''04:00'' (Some (Fin (- 1))))
             \<lparr>shift_dateOffset := None\<rparr> = Shift ''Previous Day Shift'' ''20:00'' ''04:00'' None"
    by (simp add: Shift_def)
  note w = dateOffset_moves_anchor[OF parse_2025_01_15 parse_2025_01_14 k o,
      of tzdb 0 "JString ''Europe/Warsaw''"]
  show ?thesis using w e l u by simp
qed



text \<open>
  In the civil-time facility the condition on the times cannot be dropped: on
  2025-03-30 in Europe/Warsaw the skipped start 02:30 is read as 03:30, and with the
  end 03:30, one hour later on the clock, both instants are the same.
\<close>

lemma skipped_start_meets_end:
  "getShiftTimeRange (civil_time tzdb) 0 (Some (Shift ''Gap'' ''02:30'' ''03:30'' None))
       (JString ''Europe/Warsaw'') (Some ''2025-03-30'')
     = Inr (Fin 1743298200000, Fin 1743298200000)"
  by code_simp


end
